theory Spec2Isabelle
  imports Main "HOL-Library.Word"
begin

unbundle bit_operations_syntax

section \<open>The kqueue socket engine (socketengine\_kqueue.cpp)\<close>

subsection \<open>Data\<close>

text \<open>
  An \<open>EventHandler*\<close> is an object with an identity (its address), a descriptor
  \<open>GetFd()\<close> and a direction \<open>Readable()\<close>. Its virtual \<open>HandleEvent\<close> lives in
  subclasses outside this file and is a parameter of the dispatcher below.
\<close>

record EventHandler =
  eh_addr :: nat
  GetFd :: int
  Readable :: bool

datatype EventType = EVENT_READ | EVENT_WRITE

text \<open>
  \<open>struct kevent\<close>: the engine only ever sets or reads \<open>ident\<close>, \<open>filter\<close> and
  \<open>flags\<close> (\<open>fflags\<close>, \<open>data\<close> and \<open>udata\<close> are always passed as 0).
  \<open>flags\<close> is a \<open>u_short\<close>; \<open>filter\<close> a \<open>short\<close>.
\<close>

record kevent =
  ke_ident :: int
  ke_filter :: int
  ke_flags :: "16 word"

text \<open>The constants of \<open><sys/event.h>\<close> that the engine uses.\<close>

definition EVFILT_READ :: int where "EVFILT_READ = - 1"
definition EVFILT_WRITE :: int where "EVFILT_WRITE = - 2"
definition EV_ADD :: "16 word" where "EV_ADD = 0x0001"
definition EV_DELETE :: "16 word" where "EV_DELETE = 0x0002"
definition EV_ONESHOT :: "16 word" where "EV_ONESHOT = 0x0010"
definition EV_EOF :: "16 word" where "EV_EOF = 0x8000"

definition EV_SET :: "int \<Rightarrow> int \<Rightarrow> 16 word \<Rightarrow> kevent" where
  "EV_SET i f fl = \<lparr>ke_ident = i, ke_filter = f, ke_flags = fl\<rparr>"

text \<open>
  The engine: the handle table \<open>ref\<close> (a null pointer is \<open>None\<close>), the counter
  \<open>CurrentSetSize\<close>, and \<open>submitted\<close>, the change records handed to
  \<open>kevent(EngineHandle, &ke, 1, 0, 0, NULL)\<close> so far, in call order. The value each
  such call returns is decided by the kernel and is an argument of the operation that
  makes the call. \<open>MAX_DESCRIPTORS\<close> is a build-time macro and is the argument
  \<open>MAXD\<close> throughout.
\<close>

record engine =
  ref :: "int \<Rightarrow> EventHandler option"
  CurrentSetSize :: int
  submitted :: "kevent list"

text \<open>
  The constructor sets \<open>CurrentSetSize = 0\<close>; the table starts out all null (the base
  class, outside this file, clears it).
\<close>

definition KQueueEngine :: engine where
  "KQueueEngine = \<lparr>ref = (\<lambda>_. None), CurrentSetSize = 0, submitted = []\<rparr>"

definition kevent_change :: "kevent \<Rightarrow> engine \<Rightarrow> engine" where
  "kevent_change ke st = st\<lparr>submitted := submitted st @ [ke]\<rparr>"

subsection \<open>Operations\<close>

definition GetMaxFds :: "int \<Rightarrow> int" where
  "GetMaxFds MAXD = MAXD"

definition GetRemainingFds :: "int \<Rightarrow> engine \<Rightarrow> int" where
  "GetRemainingFds MAXD st = MAXD - CurrentSetSize st"

definition AddFd :: "int \<Rightarrow> int \<Rightarrow> EventHandler \<Rightarrow> engine \<Rightarrow> bool \<times> engine" where
  "AddFd MAXD i eh st =
     (let fd = GetFd eh in
      if fd < 0 \<or> fd > MAXD then (False, st)
      else if GetRemainingFds MAXD st \<le> 1 then (False, st)
      else if ref st fd \<noteq> None then (False, st)
      else
        let st1 = st\<lparr>ref := (ref st)(fd := Some eh)\<rparr>;
            st2 = kevent_change
                    (EV_SET fd (if Readable eh then EVFILT_READ else EVFILT_WRITE) EV_ADD) st1
        in if i = - 1 then (False, st2)
           else (True, st2\<lparr>CurrentSetSize := CurrentSetSize st2 + 1\<rparr>))"

definition DelFd :: "int \<Rightarrow> int \<Rightarrow> EventHandler \<Rightarrow> engine \<Rightarrow> bool \<times> engine" where
  "DelFd MAXD i eh st =
     (let fd = GetFd eh in
      if fd < 0 \<or> fd > MAXD then (False, st)
      else
        let st1 = kevent_change
                    (EV_SET fd (if Readable eh then EVFILT_READ else EVFILT_WRITE) EV_DELETE) st
        in if i = - 1 then (False, st1)
           else (True, st1\<lparr>CurrentSetSize := CurrentSetSize st1 - 1,
                            ref := (ref st1)(fd := None)\<rparr>))"

text \<open>\<open>WantWrite\<close>: the value \<open>kevent\<close> returns only selects a log line.\<close>

definition WantWrite :: "EventHandler \<Rightarrow> engine \<Rightarrow> engine" where
  "WantWrite eh st = kevent_change (EV_SET (GetFd eh) EVFILT_WRITE (EV_ADD OR EV_ONESHOT)) st"

text \<open>
  The dispatch loop. \<open>ke_list[j].flags & EVFILT_WRITE\<close> promotes the \<open>u_short\<close> to
  \<open>int\<close> and masks it with the (negative) filter constant. \<open>ref[ident]->HandleEvent\<close>
  is a call through the slot with no test of the pointer: on a null slot the call has no
  defined behaviour, which is the error \<open>NullHandler\<close>. The callback may change the
  engine (it may register and unregister handlers); \<open>calls\<close> records the callbacks made.
\<close>

datatype crash = NullHandler int

type_synonym callback = "EventHandler \<Rightarrow> EventType \<Rightarrow> engine \<Rightarrow> engine"
type_synonym calls = "(EventHandler \<times> EventType) list"

definition write_flagged :: "kevent \<Rightarrow> bool" where
  "write_flagged ke = (uint (ke_flags ke) AND EVFILT_WRITE \<noteq> 0)"

fun dispatch_loop :: "callback \<Rightarrow> kevent list \<Rightarrow> engine \<Rightarrow> calls \<Rightarrow> crash + engine \<times> calls" where
  "dispatch_loop HandleEvent [] st cs = Inr (st, cs)"
| "dispatch_loop HandleEvent (ke # kes) st cs =
     (if write_flagged ke then
        (let st1 = kevent_change (EV_SET (ke_ident ke) EVFILT_READ EV_ADD) st in
         case ref st1 (ke_ident ke) of
           None \<Rightarrow> Inl (NullHandler (ke_ident ke))
         | Some eh \<Rightarrow>
             dispatch_loop HandleEvent kes (HandleEvent eh EVENT_WRITE st1) (cs @ [(eh, EVENT_WRITE)]))
      else
        (case ref st (ke_ident ke) of
           None \<Rightarrow> Inl (NullHandler (ke_ident ke))
         | Some eh \<Rightarrow>
             dispatch_loop HandleEvent kes (HandleEvent eh EVENT_READ st) (cs @ [(eh, EVENT_READ)])))"

text \<open>
  \<open>DispatchEvents\<close>: the wait call returned \<open>i\<close> and filled the first \<open>i\<close> entries of
  \<open>ke_list\<close>; the loop visits exactly those and the function returns \<open>i\<close>.
\<close>

definition DispatchEvents ::
  "callback \<Rightarrow> int \<Rightarrow> kevent list \<Rightarrow> engine \<Rightarrow> calls \<Rightarrow> crash + int \<times> engine \<times> calls" where
  "DispatchEvents HandleEvent i ke_list st cs =
     (case dispatch_loop HandleEvent (take (nat i) ke_list) st cs of
        Inl e \<Rightarrow> Inl e
      | Inr (st', cs') \<Rightarrow> Inr (i, st', cs'))"

subsection \<open>Sequences of registrations and unregistrations\<close>

text \<open>
  A caller's request, with the value the kernel returns for the \<open>kevent\<close> call the
  request makes (if it gets that far).
\<close>

datatype request = Register int EventHandler | Unregister int EventHandler

fun perform :: "int \<Rightarrow> request \<Rightarrow> engine \<Rightarrow> bool \<times> engine" where
  "perform MAXD (Register i eh) st = AddFd MAXD i eh st"
| "perform MAXD (Unregister i eh) st = DelFd MAXD i eh st"

fun is_Register :: "request \<Rightarrow> bool" where
  "is_Register (Register _ _) = True"
| "is_Register (Unregister _ _) = False"

text \<open>
  Running a sequence gives the final engine and the numbers of registrations and of
  unregistrations that returned \<open>true\<close>.
\<close>

fun run :: "int \<Rightarrow> request list \<Rightarrow> engine \<Rightarrow> engine \<times> nat \<times> nat" where
  "run MAXD [] st = (st, 0, 0)"
| "run MAXD (r # rs) st =
     (let (ok, st') = perform MAXD r st;
          (st'', a, d) = run MAXD rs st'
      in (st'',
          (if ok \<and> is_Register r then Suc a else a),
          (if ok \<and> \<not> is_Register r then Suc d else d)))"

text \<open>The non-empty slots among the identifiers \<open>0 .. MAXD\<close> the operations admit.\<close>

definition occupied :: "int \<Rightarrow> engine \<Rightarrow> nat" where
  "occupied MAXD st = length (filter (\<lambda>fd. ref st fd \<noteq> None) [0..MAXD])"



text \<open>The handlers, callbacks and engines that the statements below are evaluated at.\<close>

definition conn3 :: EventHandler where
  "conn3 = \<lparr>eh_addr = 1, GetFd = 3, Readable = True\<rparr>"

definition conn4 :: EventHandler where
  "conn4 = \<lparr>eh_addr = 2, GetFd = 4, Readable = True\<rparr>"

definition pipe5 :: EventHandler where
  "pipe5 = \<lparr>eh_addr = 3, GetFd = 5, Readable = False\<rparr>"

definition handler :: "int \<Rightarrow> EventHandler" where
  "handler fd = \<lparr>eh_addr = nat fd, GetFd = fd, Readable = True\<rparr>"

text \<open>With \<open>MAX_DESCRIPTORS = 4\<close>: four registrations, each accepted by the kernel.\<close>

definition fill_four :: "request list" where
  "fill_four = map (\<lambda>fd. Register 0 (handler fd)) [0, 1, 2, 3]"

text \<open>
  With \<open>MAX_DESCRIPTORS = 8\<close>: a handler that was never registered is unregistered
  and the kernel accepts the removal (it holds a filter for the descriptor); then
  eight handlers are registered.
\<close>

definition unregister_first :: "request list" where
  "unregister_first =
     Unregister 0 \<lparr>eh_addr = 8, GetFd = 8, Readable = False\<rparr> #
     map (\<lambda>fd. Register 0 (handler fd)) [0, 1, 2, 3, 4, 5, 6, 7]"

definition idle :: callback where
  "idle eh ev st = st"

text \<open>A callback of \<open>conn3\<close> that closes its peer \<open>conn4\<close>; the kernel accepts the removal.\<close>

definition closes_peer :: callback where
  "closes_peer eh ev st = (if GetFd eh = 3 then snd (DelFd 1024 0 conn4 st) else st)"

definition with_conn3 :: engine where
  "with_conn3 = snd (AddFd 1024 0 conn3 KQueueEngine)"

definition with_conn3_conn4 :: engine where
  "with_conn3_conn4 = snd (AddFd 1024 0 conn4 with_conn3)"

definition with_pipe5 :: engine where
  "with_pipe5 = snd (AddFd 1024 0 pipe5 KQueueEngine)"

text \<open>
  \<open>conn3\<close> asked for one write notification, the kernel returned the one-shot write
  event and the dispatcher handled it.
\<close>

definition write_fired :: engine where
  "write_fired = kevent_change (EV_SET 3 EVFILT_READ EV_ADD) (WantWrite conn3 with_conn3)"

section \<open>The MySQL provider (m\_mysql.cpp)\<close>

subsection \<open>Result sets\<close>

text \<open>
  \<open>SQLerror\<close> and \<open>SQLEntry\<close> are declared in \<open>sql.h\<close>; the error numbers are the ones
  this file names. \<open>SQLEntry()\<close> is the empty (null) entry, \<open>SQLEntry(v)\<close> holds \<open>v\<close>.
\<close>

datatype SQLerrorNum = SQL_NO_ERROR | SQL_BAD_DBID | SQL_QREPLY_FAIL

record SQLerror =
  err_id :: SQLerrorNum
  err_str :: string

definition SQLerror :: "SQLerrorNum \<Rightarrow> string \<Rightarrow> SQLerror" where
  "SQLerror n s = \<lparr>err_id = n, err_str = s\<rparr>"

record SQLEntry =
  entry_value :: string
  entry_nul :: bool

definition SQLEntry_empty :: SQLEntry where
  "SQLEntry_empty = \<lparr>entry_value = [], entry_nul = True\<rparr>"

definition SQLEntry_of :: "string \<Rightarrow> SQLEntry" where
  "SQLEntry_of v = \<lparr>entry_value = v, entry_nul = False\<rparr>"

type_synonym SQLEntries = "SQLEntry list"

record MySQLresult =
  err :: SQLerror
  currentrow :: int
  rows :: int
  colnames :: "string list"
  fieldlists :: "SQLEntries list"

text \<open>
  What the client library hands the constructor: the rows that successive
  \<open>mysql_fetch_row\<close> calls return (each a \<open>char**\<close>, a null cell being \<open>None\<close>), the
  value of \<open>mysql_num_fields\<close>, and the array \<open>mysql_fetch_fields\<close> returns (a null
  array being \<open>None\<close>), reduced to the field names.
\<close>

record MYSQL_RES =
  fetch_row :: "(nat \<Rightarrow> string option) list"
  num_fields :: nat
  fetch_fields :: "(nat \<Rightarrow> string option) option"

datatype sql_crash = VectorOutOfRange | DequeOutOfRange | EmptyDequeFront

definition row_entries :: "nat \<Rightarrow> (nat \<Rightarrow> string option) \<Rightarrow> SQLEntries" where
  "row_entries nf row =
     map (\<lambda>k. case row k of Some v \<Rightarrow> SQLEntry_of v | None \<Rightarrow> SQLEntry_empty) [0..<nf]"

definition field_names :: "nat \<Rightarrow> (nat \<Rightarrow> string option) \<Rightarrow> string list" where
  "field_names nf fds = map (\<lambda>k. case fds k of Some a \<Rightarrow> a | None \<Rightarrow> []) [0..<nf]"

text \<open>
  The \<open>while ((row = mysql_fetch_row(res)))\<close> loop of the constructor, over the rows
  still to fetch, with the locals \<open>n\<close>, \<open>rows\<close>, \<open>colnames\<close> and \<open>fieldlists\<close>.
  \<open>fieldlists[n]\<close> is an unchecked vector access.
\<close>

fun fetch_loop ::
  "MYSQL_RES \<Rightarrow> (nat \<Rightarrow> string option) list \<Rightarrow> nat \<Rightarrow> int \<Rightarrow> string list \<Rightarrow> SQLEntries list
     \<Rightarrow> sql_crash + int \<times> string list \<times> SQLEntries list" where
  "fetch_loop res [] n rws cols fl = Inr (rws, cols, fl)"
| "fetch_loop res (row # rest) n rws cols fl =
     (let fl1 = (if int (length fl) < rws + 1 then fl @ [[]] else fl) in
      if num_fields res = 0 then Inr (rws, cols, fl1)
      else
        (case fetch_fields res of
           Some fds \<Rightarrow>
             if n < length fl1 then
               fetch_loop res rest (n + 1) (rws + 1) (field_names (num_fields res) fds)
                 (fl1[n := fl1 ! n @ row_entries (num_fields res) row])
             else Inl VectorOutOfRange
         | None \<Rightarrow> fetch_loop res rest n (rws + 1) cols fl1))"

text \<open>
  \<open>MySQLresult(MYSQL_RES* res, int affected_rows)\<close>; a null \<open>res\<close> is \<open>None\<close>.
\<close>

definition MySQLresult :: "MYSQL_RES option \<Rightarrow> int \<Rightarrow> sql_crash + MySQLresult" where
  "MySQLresult res affected_rows =
     (let rws = (if affected_rows \<ge> 1 then affected_rows else 0);
          fl = replicate (nat rws) []
      in case res of
           None \<Rightarrow>
             Inr \<lparr>err = SQLerror SQL_NO_ERROR [], currentrow = 0, rows = rws,
                  colnames = [], fieldlists = fl\<rparr>
         | Some rs \<Rightarrow>
             (case fetch_loop rs (fetch_row rs) 0 rws [] fl of
                Inl e \<Rightarrow> Inl e
              | Inr (rws', cols, fl') \<Rightarrow>
                  Inr \<lparr>err = SQLerror SQL_NO_ERROR [], currentrow = 0, rows = rws',
                       colnames = cols, fieldlists = fl'\<rparr>))"

text \<open>
  \<open>MySQLresult(SQLerror& e)\<close> initialises \<open>err\<close> only: \<open>currentrow\<close> and \<open>rows\<close> keep
  whatever the memory held, the arguments \<open>cr\<close> and \<open>rw\<close>.
\<close>

definition MySQLresult_error :: "SQLerror \<Rightarrow> int \<Rightarrow> int \<Rightarrow> MySQLresult" where
  "MySQLresult_error e cr rw =
     \<lparr>err = e, currentrow = cr, rows = rw, colnames = [], fieldlists = []\<rparr>"

definition Rows :: "MySQLresult \<Rightarrow> int" where
  "Rows r = rows r"

definition GetValue :: "MySQLresult \<Rightarrow> int \<Rightarrow> int \<Rightarrow> sql_crash + SQLEntry" where
  "GetValue r row column =
     (if row \<ge> 0 \<and> row < rows r \<and> column \<ge> 0 then
        (if nat row < length (fieldlists r) then
           (if column < int (length (fieldlists r ! nat row))
            then Inr (fieldlists r ! nat row ! nat column)
            else Inr SQLEntry_empty)
         else Inl VectorOutOfRange)
      else Inr SQLEntry_empty)"

text \<open>\<open>GetRow\<close> returns its \<open>bool\<close>, the new contents of \<open>result\<close> and the object.\<close>

definition GetRow :: "MySQLresult \<Rightarrow> sql_crash + bool \<times> SQLEntries \<times> MySQLresult" where
  "GetRow r =
     (if currentrow r < rows r then
        (if 0 \<le> currentrow r \<and> nat (currentrow r) < length (fieldlists r)
         then Inr (True, fieldlists r ! nat (currentrow r), r\<lparr>currentrow := currentrow r + 1\<rparr>)
         else Inl VectorOutOfRange)
      else Inr (False, [], r))"

text \<open>\<open>k\<close> successive calls of \<open>GetRow\<close>: what each returned and left in \<open>result\<close>.\<close>

fun GetRow_calls :: "nat \<Rightarrow> MySQLresult \<Rightarrow> sql_crash + (bool \<times> SQLEntries) list" where
  "GetRow_calls 0 r = Inr []"
| "GetRow_calls (Suc k) r =
     (case GetRow r of
        Inl e \<Rightarrow> Inl e
      | Inr (b, out, r') \<Rightarrow>
          (case GetRow_calls k r' of Inl e \<Rightarrow> Inl e | Inr outs \<Rightarrow> Inr ((b, out) # outs)))"

subsection \<open>The query and result queues\<close>

text \<open>
  An \<open>SQLQuery*\<close> is an address and the module that created the query; an
  \<open>SQLConnection*\<close> is an address. The callbacks \<open>OnResult\<close> and \<open>OnError\<close> of a query
  are recorded in \<open>delivered\<close>, in call order.
\<close>

record SQLQuery =
  q_addr :: nat
  creator :: nat

type_synonym SQLConnection = nat

record QQueueItem =
  qi_q :: SQLQuery
  qi_query :: string
  qi_c :: SQLConnection

record RQueueItem =
  ri_q :: SQLQuery
  ri_r :: MySQLresult

datatype delivery = OnResult SQLQuery MySQLresult | OnError SQLQuery SQLerror

record ModuleSQL =
  qq :: "QQueueItem list"
  rq :: "RQueueItem list"
  delivered :: "delivery list"

definition ModuleSQL :: ModuleSQL where
  "ModuleSQL = \<lparr>qq = [], rq = [], delivered = []\<rparr>"

definition submit :: "SQLQuery \<Rightarrow> string \<Rightarrow> SQLConnection \<Rightarrow> ModuleSQL \<Rightarrow> ModuleSQL" where
  "submit q qs c st = st\<lparr>qq := qq st @ [\<lparr>qi_q = q, qi_query = qs, qi_c = c\<rparr>]\<rparr>"

text \<open>\<open>DispatcherThread::OnNotify\<close>: the loop over \<open>rq\<close>, then \<open>rq.clear()\<close>.\<close>

fun notify_loop :: "RQueueItem list \<Rightarrow> delivery list \<Rightarrow> delivery list" where
  "notify_loop [] ds = ds"
| "notify_loop (i # rest) ds =
     (if err_id (err (ri_r i)) = SQL_NO_ERROR
      then notify_loop rest (ds @ [OnResult (ri_q i) (ri_r i)])
      else notify_loop rest (ds @ [OnError (ri_q i) (err (ri_r i))]))"

definition OnNotify :: "ModuleSQL \<Rightarrow> ModuleSQL" where
  "OnNotify st = st\<lparr>delivered := notify_loop (rq st) (delivered st), rq := []\<rparr>"

text \<open>\<open>qq.erase(qq.begin() + j)\<close>.\<close>

definition erase :: "nat \<Rightarrow> 'a list \<Rightarrow> 'a list" where
  "erase j xs = take j xs @ drop (Suc j) xs"

text \<open>
  \<open>ModuleSQL::OnRehash\<close>, the removal of the queries of one withdrawn connection:
  \<open>for (unsigned int j = qq.size() - 1; j >= 0; j--)\<close>. The index is a 32-bit unsigned
  value, \<open>qq[j]\<close> is an unchecked deque access, and the loop condition is written as it
  stands in the source.
\<close>

datatype loop_end = LoopDone | Crashed sql_crash

partial_function (option) remove_queries ::
  "SQLConnection \<Rightarrow> 32 word \<Rightarrow> QQueueItem list \<Rightarrow> delivery list
     \<Rightarrow> (loop_end \<times> QQueueItem list \<times> delivery list) option" where
  "remove_queries conn j q ds =
     (if \<not> (j \<ge> 0) then Some (LoopDone, q, ds)
      else if length q \<le> unat j then Some (Crashed DequeOutOfRange, q, ds)
      else if qi_c (q ! unat j) = conn
        then remove_queries conn (j - 1) (erase (unat j) q)
               (ds @ [OnError (qi_q (q ! unat j)) (SQLerror SQL_BAD_DBID [])])
        else remove_queries conn (j - 1) q ds)"

text \<open>
  The loop over the connections to withdraw (lines 420 to 441). Waiting for the
  connection's lock changes neither queue; a crash ends the function.
\<close>

fun withdraw :: "SQLConnection list \<Rightarrow> ModuleSQL \<Rightarrow> (loop_end \<times> ModuleSQL) option" where
  "withdraw [] st = Some (LoopDone, st)"
| "withdraw (conn # rest) st =
     (case remove_queries conn (word_of_nat (length (qq st)) - 1) (qq st) (delivered st) of
        None \<Rightarrow> None
      | Some (LoopDone, q', ds') \<Rightarrow> withdraw rest (st\<lparr>qq := q', delivered := ds'\<rparr>)
      | Some (Crashed e, q', ds') \<Rightarrow> Some (Crashed e, st\<lparr>qq := q', delivered := ds'\<rparr>))"

text \<open>
  \<open>ModuleSQL::OnUnloadModule\<close>: \<open>unsigned int i = qq.size(); while (i > 0) { i--; ... }\<close>
  and then \<open>OnNotify\<close>. The first argument of \<open>unload_loop\<close> is \<open>i\<close> before the decrement.
\<close>

fun unload_loop ::
  "nat \<Rightarrow> nat \<Rightarrow> QQueueItem list \<Rightarrow> delivery list \<Rightarrow> sql_crash + QQueueItem list \<times> delivery list" where
  "unload_loop m 0 q ds = Inr (q, ds)"
| "unload_loop m (Suc i) q ds =
     (if length q \<le> i then Inl DequeOutOfRange
      else if creator (qi_q (q ! i)) = m
        then unload_loop m i (erase i q) (ds @ [OnError (qi_q (q ! i)) (SQLerror SQL_BAD_DBID [])])
        else unload_loop m i q ds)"

definition OnUnloadModule :: "nat \<Rightarrow> ModuleSQL \<Rightarrow> sql_crash + ModuleSQL" where
  "OnUnloadModule m st =
     (case unload_loop m (length (qq st)) (qq st) (delivered st) of
        Inl e \<Rightarrow> Inl e
      | Inr (q', ds') \<Rightarrow> Inr (OnNotify (st\<lparr>qq := q', delivered := ds'\<rparr>)))"

text \<open>
  \<open>DispatcherThread::Run\<close>, one turn of the loop with a non-empty queue. The worker
  holds the queue lock except while the query runs, so the turn is two steps with the
  main thread's operations (each under the same lock) in between: \<open>Run_front\<close> copies
  the front item (\<open>None\<close>: the queue is empty and the thread waits), and \<open>Run_report\<close>
  takes the lock again with the result \<open>res\<close> of \<open>DoBlockingQuery\<close>.
  \<open>Parent->qq.front()\<close> on an empty deque has no defined behaviour.
\<close>

definition Run_front :: "ModuleSQL \<Rightarrow> QQueueItem option" where
  "Run_front st = (case qq st of [] \<Rightarrow> None | i # _ \<Rightarrow> Some i)"

definition Run_report :: "QQueueItem \<Rightarrow> MySQLresult \<Rightarrow> ModuleSQL \<Rightarrow> sql_crash + ModuleSQL" where
  "Run_report i res st =
     (case qq st of
        [] \<Rightarrow> Inl EmptyDequeFront
      | f # rest \<Rightarrow>
          if q_addr (qi_q f) = q_addr (qi_q i)
          then Inr (st\<lparr>qq := rest, rq := rq st @ [\<lparr>ri_q = qi_q i, ri_r = res\<rparr>]\<rparr>)
          else Inr st)"

text \<open>
  The state of a result set between calls: the cursor is within \<open>0 .. rows\<close> and the
  vector holds at least \<open>rows\<close> rows.
\<close>

definition materialized :: "MySQLresult \<Rightarrow> bool" where
  "materialized r =
     (0 \<le> currentrow r \<and> currentrow r \<le> rows r \<and> rows r \<le> int (length (fieldlists r)))"

text \<open>What the removal loops tell the creator of a removed query.\<close>

definition bad_dbid :: "QQueueItem \<Rightarrow> delivery" where
  "bad_dbid i = OnError (qi_q i) (SQLerror SQL_BAD_DBID [])"

text \<open>The queries, queues and result sets that the statements below are evaluated at.\<close>

definition query_a :: SQLQuery where
  "query_a = \<lparr>q_addr = 100, creator = 1\<rparr>"

definition query_b :: SQLQuery where
  "query_b = \<lparr>q_addr = 101, creator = 1\<rparr>"

definition one_queued :: "QQueueItem list" where
  "one_queued = [\<lparr>qi_q = query_a, qi_query = ''SELECT 1'', qi_c = 7\<rparr>]"

definition queued_7_and_8 :: "QQueueItem list" where
  "queued_7_and_8 = [\<lparr>qi_q = query_a, qi_query = ''SELECT 1'', qi_c = 7\<rparr>,
                     \<lparr>qi_q = query_b, qi_query = ''SELECT 2'', qi_c = 8\<rparr>]"

definition two_queued :: "QQueueItem list" where
  "two_queued = [\<lparr>qi_q = query_a, qi_query = ''SELECT 1'', qi_c = 7\<rparr>,
                 \<lparr>qi_q = query_b, qi_query = ''SELECT 2'', qi_c = 7\<rparr>]"

definition empty_result :: MySQLresult where
  "empty_result =
     \<lparr>err = SQLerror SQL_NO_ERROR [], currentrow = 0, rows = 0, colnames = [], fieldlists = []\<rparr>"

definition two_results :: ModuleSQL where
  "two_results = ModuleSQL\<lparr>rq :=
     [\<lparr>ri_q = query_a, ri_r = empty_result\<rparr>,
      \<lparr>ri_q = query_b,
       ri_r = MySQLresult_error (SQLerror SQL_QREPLY_FAIL ''1064: syntax'') 0 0\<rparr>]\<rparr>"

definition two_rows :: MYSQL_RES where
  "two_rows =
     \<lparr>fetch_row = [(\<lambda>k. if k = 0 then Some ''a'' else None), (\<lambda>k. Some ''b'')],
      num_fields = 2,
      fetch_fields = Some (\<lambda>k. if k = 0 then Some ''x'' else Some ''y'')\<rparr>"

section \<open>Properties of the socket engine\<close>

subsection \<open>Registration, its bounds and its count\<close>

lemmas example_defs = conn3_def conn4_def pipe5_def idle_def closes_peer_def with_conn3_def
  with_conn3_conn4_def with_pipe5_def write_fired_def KQueueEngine_def handler_def
  fill_four_def unregister_first_def

lemmas engine_defs = AddFd_def DelFd_def WantWrite_def kevent_change_def GetRemainingFds_def
  EV_SET_def EVFILT_READ_def EVFILT_WRITE_def EV_ADD_def EV_DELETE_def EV_ONESHOT_def EV_EOF_def
  DispatchEvents_def write_flagged_def Let_def



lemma AddFd_size:
  "CurrentSetSize (snd (AddFd MAXD i eh st)) =
     (if fst (AddFd MAXD i eh st) then CurrentSetSize st + 1 else CurrentSetSize st)"
  by (simp add: AddFd_def Let_def kevent_change_def)


lemma DelFd_size:
  "CurrentSetSize (snd (DelFd MAXD i eh st)) =
     (if fst (DelFd MAXD i eh st) then CurrentSetSize st - 1 else CurrentSetSize st)"
  by (simp add: DelFd_def Let_def kevent_change_def)



lemma perform_size:
  "CurrentSetSize (snd (perform MAXD r st)) =
     CurrentSetSize st + (if fst (perform MAXD r st) then (if is_Register r then 1 else - 1) else 0)"
  by (cases r) (simp_all add: AddFd_size DelFd_size)

text \<open>
  Whatever the requests and the kernel's answers, \<open>CurrentSetSize\<close> moves by the number
  of registrations that returned \<open>true\<close> minus the number of unregistrations that did.
\<close>

lemma run_count:
  "CurrentSetSize (fst (run MAXD rs st)) =
     CurrentSetSize st + int (fst (snd (run MAXD rs st))) - int (snd (snd (run MAXD rs st)))"
proof (induction rs arbitrary: st)
  case Nil
  then show ?case by simp
next
  case (Cons r rs)
  show ?case
    using Cons.IH [of "snd (perform MAXD r st)"] perform_size [of MAXD r st]
    by (simp add: split_beta Let_def)
qed













subsection \<open>Dispatch\<close>

text \<open>
  The dispatcher never looks at the slot before calling through it: whatever the batch
  and the callbacks, an event whose slot is empty when its turn comes ends the loop in
  a call through a null pointer.
\<close>

lemma dispatch_missing_handler:
  "ref st (ke_ident ke) = None \<Longrightarrow>
   dispatch_loop HandleEvent (ke # kes) st cs = Inl (NullHandler (ke_ident ke))"
  by (simp add: kevent_change_def Let_def)

text \<open>
  C1. The claim: an event whose identifier has no handle table entry when it is
  processed (its handler was unregistered by an earlier callback of the same batch) is
  discarded and no callback runs. The code, at the batch of a read event for descriptor 3
  and one for descriptor 4, with both handlers registered and the callback of
  descriptor 3 unregistering descriptor 4: \<open>DelFd\<close> has set \<open>ref[4]\<close> to null, and the
  loop calls \<open>ref[4]->HandleEvent\<close> all the same.
\<close>

theorem DispatchEvents_unregistered_mid_batch:
  "DispatchEvents closes_peer 2 [EV_SET 3 EVFILT_READ 0, EV_SET 4 EVFILT_READ 0] with_conn3_conn4 []
     = Inl (NullHandler 4)"
  by (simp add: example_defs engine_defs)

text \<open>
  A single event, its handler present: the branch taken depends on the event's
  \<open>flags\<close> only, and the write branch first asks the kernel for read interest again.
\<close>

lemma dispatch_one_event:
  "ref st (ke_ident ke) = Some eh \<Longrightarrow>
   dispatch_loop HandleEvent [ke] st cs =
     (if write_flagged ke
      then Inr (HandleEvent eh EVENT_WRITE (kevent_change (EV_SET (ke_ident ke) EVFILT_READ EV_ADD) st),
                cs @ [(eh, EVENT_WRITE)])
      else Inr (HandleEvent eh EVENT_READ st, cs @ [(eh, EVENT_READ)]))"
  by (simp add: kevent_change_def Let_def)

text \<open>
  C3. The claim: the write callback runs exactly when the event reports write
  readiness, the read callback exactly when it reports read readiness. The code tests
  \<open>flags & EVFILT_WRITE\<close>, not \<open>filter == EVFILT_WRITE\<close>: a read event that carries
  \<open>EV_EOF\<close> (the peer closed the connection) gets the write callback, and a write event
  with no flag set (a handler that is not \<open>Readable()\<close>, registered by \<open>AddFd\<close> for
  \<open>EVFILT_WRITE\<close>) gets the read callback.
\<close>

theorem DispatchEvents_direction_by_flags:
  "DispatchEvents idle 1 [EV_SET 3 EVFILT_READ EV_EOF] with_conn3 []
     = Inr (1, kevent_change (EV_SET 3 EVFILT_READ EV_ADD) with_conn3, [(conn3, EVENT_WRITE)]) \<and>
   DispatchEvents idle 1 [EV_SET 5 EVFILT_WRITE 0] with_pipe5 []
     = Inr (1, with_pipe5, [(pipe5, EVENT_READ)])"
  by (simp add: example_defs engine_defs)

subsection \<open>Write notifications\<close>

lemma WantWrite_submits_oneshot:
  "submitted (WantWrite eh st) = submitted st @ [EV_SET (GetFd eh) EVFILT_WRITE (EV_ADD OR EV_ONESHOT)] \<and>
   ref (WantWrite eh st) = ref st \<and> CurrentSetSize (WantWrite eh st) = CurrentSetSize st"
  by (simp add: WantWrite_def kevent_change_def)

text \<open>
  C7. The claim: a request for write notification is one-shot, and after the writable
  event has fired no second writable notification is delivered for the descriptor
  without a fresh request. \<open>WantWrite\<close> does ask for a one-shot event
  (\<open>WantWrite_submits_oneshot\<close>) and the dispatcher asks for read interest again
  (\<open>dispatch_one_event\<close>). But with one request made and its event delivered, a later
  read event with \<open>EV_EOF\<close> for the same descriptor is dispatched as a write event: the
  handler's write callback runs a second time, and the only write request the engine
  ever submitted is the first one.
\<close>

theorem DispatchEvents_write_callback_without_request:
  "DispatchEvents idle 1 [EV_SET 3 EVFILT_WRITE EV_ONESHOT] (WantWrite conn3 with_conn3) []
     = Inr (1, write_fired, [(conn3, EVENT_WRITE)]) \<and>
   DispatchEvents idle 1 [EV_SET 3 EVFILT_READ EV_EOF] write_fired [(conn3, EVENT_WRITE)]
     = Inr (1, kevent_change (EV_SET 3 EVFILT_READ EV_ADD) write_fired,
            [(conn3, EVENT_WRITE), (conn3, EVENT_WRITE)]) \<and>
   filter (\<lambda>ke. ke_filter ke = EVFILT_WRITE)
       (submitted (kevent_change (EV_SET 3 EVFILT_READ EV_ADD) write_fired))
     = [EV_SET 3 EVFILT_WRITE (EV_ADD OR EV_ONESHOT)]"
  by (simp add: example_defs engine_defs)

subsection \<open>A registration the kernel refuses\<close>

text \<open>
  C4. The claim: a registration that fails (identifier out of range, capacity
  exhausted, slot occupied, or the kernel refusing the insertion) leaves the handle table
  and the count unchanged. The first three do (\<open>AddFd_rejected_unchanged\<close>) and a
  success stores and counts (\<open>AddFd_accepted\<close>). The fourth does not: \<open>ref[fd] = eh\<close> is
  executed before \<open>kevent\<close> is called and is not undone when it returns -1, so the call
  returns \<open>false\<close> with the handler in its slot, and a second attempt for the same
  handler is refused as "slot already occupied" even when the kernel would accept it.
\<close>

theorem AddFd_kernel_failure_keeps_slot:
  "AddFd 1024 (- 1) conn3 KQueueEngine =
     (False, KQueueEngine\<lparr>ref := (ref KQueueEngine)(3 := Some conn3),
                           submitted := [EV_SET 3 EVFILT_READ EV_ADD]\<rparr>) \<and>
   ref (snd (AddFd 1024 (- 1) conn3 KQueueEngine)) 3 \<noteq> ref KQueueEngine 3 \<and>
   AddFd 1024 0 conn3 (snd (AddFd 1024 (- 1) conn3 KQueueEngine)) =
     (False, snd (AddFd 1024 (- 1) conn3 KQueueEngine))"
  by (simp add: example_defs engine_defs)

text \<open>
  C8. The claim: over any sequence of registrations and unregistrations within
  capacity, \<open>CurrentSetSize\<close> is the number of successful registrations minus the number
  of successful unregistrations, and is the number of non-empty slots of the table. The
  first holds (\<open>run_count\<close>), and the second does on orderly sequences
  (\<open>run_orderly_occupied\<close>). The second fails on the single registration that the
  kernel refuses: no registration succeeded and the count is 0, but one slot is non-empty.
\<close>

theorem run_failed_insertion_count:
  "run 8 [Register (- 1) conn3] KQueueEngine =
     (KQueueEngine\<lparr>ref := (ref KQueueEngine)(3 := Some conn3),
                    submitted := [EV_SET 3 EVFILT_READ EV_ADD]\<rparr>, 0, 0) \<and>
   CurrentSetSize (fst (run 8 [Register (- 1) conn3] KQueueEngine)) = 0 \<and>
   occupied 8 (fst (run 8 [Register (- 1) conn3] KQueueEngine)) = 1"
  by (simp add: example_defs engine_defs occupied_def upto.simps)

section \<open>Properties of the MySQL provider\<close>

subsection \<open>Result sets\<close>

text \<open>
  The constructor's loop never indexes \<open>fieldlists\<close> out of range and leaves at least
  \<open>rows\<close> rows in it: before each fetched row \<open>n \<le> rows \<le> size\<close>, and the loop grows the
  vector to \<open>rows + 1\<close> before it writes row \<open>n\<close>.
\<close>

lemma fetch_loop_ok:
  "0 \<le> rws \<Longrightarrow> rws \<le> int (length fl) \<Longrightarrow> int n \<le> rws \<Longrightarrow>
   \<exists>rws' cols' fl'. fetch_loop res rs n rws cols fl = Inr (rws', cols', fl') \<and>
      0 \<le> rws' \<and> rws' \<le> int (length fl')"
proof (induction rs arbitrary: n rws cols fl)
  case Nil
  then show ?case by simp
next
  case (Cons row rs)
  define fl1 where "fl1 = (if int (length fl) < rws + 1 then fl @ [[]] else fl)"
  have len: "rws + 1 \<le> int (length fl1)"
    using Cons.prems by (simp add: fl1_def)
  show ?case
  proof (cases "num_fields res = 0")
    case True
    then show ?thesis using len Cons.prems by (simp add: fl1_def Let_def)
  next
    case nz: False
    show ?thesis
    proof (cases "fetch_fields res")
      case None
      have "\<exists>rws' cols' fl'. fetch_loop res rs n (rws + 1) cols fl1 = Inr (rws', cols', fl') \<and>
          0 \<le> rws' \<and> rws' \<le> int (length fl')"
        using Cons.prems len by (intro Cons.IH) simp_all
      then show ?thesis using nz None by (simp add: fl1_def Let_def)
    next
      case (Some fds)
      have n: "n < length fl1" using len Cons.prems by simp
      have "\<exists>rws' cols' fl'. fetch_loop res rs (n + 1) (rws + 1) (field_names (num_fields res) fds)
                (fl1[n := fl1 ! n @ row_entries (num_fields res) row]) = Inr (rws', cols', fl') \<and>
          0 \<le> rws' \<and> rws' \<le> int (length fl')"
        using Cons.prems len by (intro Cons.IH) simp_all
      then show ?thesis using nz Some n by (simp add: fl1_def Let_def)
    qed
  qed
qed

lemma MySQLresult_materialized:
  "\<exists>r. MySQLresult res affected_rows = Inr r \<and> materialized r \<and> currentrow r = 0"
proof (cases res)
  case None
  then show ?thesis by (simp add: MySQLresult_def materialized_def Let_def)
next
  case (Some rs)
  define rws where "rws = (if affected_rows \<ge> 1 then affected_rows else 0)"
  have "\<exists>rws' cols' fl'. fetch_loop rs (fetch_row rs) 0 rws [] (replicate (nat rws) [])
            = Inr (rws', cols', fl') \<and> 0 \<le> rws' \<and> rws' \<le> int (length fl')"
    by (intro fetch_loop_ok) (simp_all add: rws_def)
  then show ?thesis using Some
    by (auto simp add: MySQLresult_def materialized_def Let_def rws_def)
qed

lemma GetValue_materialized:
  "materialized r \<Longrightarrow> GetValue r row column =
     Inr (if 0 \<le> row \<and> row < Rows r \<and> 0 \<le> column \<and> column < int (length (fieldlists r ! nat row))
          then fieldlists r ! nat row ! nat column else SQLEntry_empty)"
  by (auto simp add: GetValue_def materialized_def Rows_def)

lemma GetRow_calls_materialized:
  "materialized r \<Longrightarrow> GetRow_calls k r =
     Inr (map (Pair True) (take k (drop (nat (currentrow r)) (take (nat (rows r)) (fieldlists r))))
          @ replicate (k - (nat (rows r) - nat (currentrow r))) (False, []))"
proof (induction k arbitrary: r)
  case 0
  then show ?case by simp
next
  case (Suc k)
  show ?case
  proof (cases "currentrow r < rows r")
    case True
    let ?r' = "r\<lparr>currentrow := currentrow r + 1\<rparr>"
    have s': "materialized ?r'" using Suc.prems True by (simp add: materialized_def)
    have lt0: "nat (currentrow r) < length (fieldlists r)" "nat (currentrow r) < nat (rows r)"
      using Suc.prems True unfolding materialized_def by arith+
    have g: "GetRow r = Inr (True, fieldlists r ! nat (currentrow r), ?r')"
      using Suc.prems True lt0 by (simp add: GetRow_def materialized_def)
    have lt: "nat (currentrow r) < length (take (nat (rows r)) (fieldlists r))"
      using lt0 by simp
    have d: "drop (nat (currentrow r)) (take (nat (rows r)) (fieldlists r)) =
          fieldlists r ! nat (currentrow r) #
            drop (nat (currentrow r + 1)) (take (nat (rows r)) (fieldlists r))"
      using Cons_nth_drop_Suc [OF lt] lt Suc.prems
      by (simp add: materialized_def nat_add_distrib)
    have sub: "Suc k - (nat (rows r) - nat (currentrow r)) = k - (nat (rows r) - nat (currentrow r + 1))"
      using True Suc.prems unfolding materialized_def by arith
    show ?thesis
      using Suc.IH [OF s'] g by (simp add: d sub)
  next
    case False
    then have e: "currentrow r = rows r" using Suc.prems by (simp add: materialized_def)
    have g: "GetRow r = Inr (False, [], r)" using False by (simp add: GetRow_def)
    show ?thesis using Suc.IH [OF Suc.prems] g e by (simp add: replicate_app_Cons_same)
  qed
qed

text \<open>
  C10. Every result set the constructor builds (whatever the library returns and
  whatever \<open>affected_rows\<close> is, the construction itself staying in range) holds at least
  \<open>Rows()\<close> rows, and on it: \<open>GetValue\<close> returns the stored cell when
  \<open>0 \<le> row < Rows()\<close> and \<open>0 \<le> column <\<close> the width of that row, and the empty entry
  otherwise; \<open>k\<close> successive calls of \<open>GetRow\<close> return \<open>true\<close> with rows
  \<open>0, 1, ...\<close> in order, each once, and from call \<open>Rows() + 1\<close> on return \<open>false\<close> with
  the output cleared. Neither accessor indexes outside the vectors (no result is
  \<open>VectorOutOfRange\<close>). The C \<open>int\<close>s are unbounded integers here: sizes stay below
  \<open>2^31\<close>.
\<close>

theorem MySQLresult_accessors:
  "\<exists>r. MySQLresult res affected_rows = Inr r \<and>
     nat (Rows r) \<le> length (fieldlists r) \<and>
     (\<forall>row column. GetValue r row column =
        Inr (if 0 \<le> row \<and> row < Rows r \<and> 0 \<le> column \<and>
                column < int (length (fieldlists r ! nat row))
             then fieldlists r ! nat row ! nat column else SQLEntry_empty)) \<and>
     (\<forall>k. GetRow_calls k r =
        Inr (map (Pair True) (take k (take (nat (Rows r)) (fieldlists r)))
             @ replicate (k - nat (Rows r)) (False, [])))"
proof -
  obtain r where r: "MySQLresult res affected_rows = Inr r" "materialized r" "currentrow r = 0"
    using MySQLresult_materialized by blast
  have "nat (Rows r) \<le> length (fieldlists r)"
    using r(2) unfolding materialized_def Rows_def by arith
  moreover have "\<forall>row column. GetValue r row column =
        Inr (if 0 \<le> row \<and> row < Rows r \<and> 0 \<le> column \<and>
                column < int (length (fieldlists r ! nat row))
             then fieldlists r ! nat row ! nat column else SQLEntry_empty)"
    using GetValue_materialized [OF r(2)] by blast
  moreover have "\<forall>k. GetRow_calls k r =
        Inr (map (Pair True) (take k (take (nat (Rows r)) (fieldlists r)))
             @ replicate (k - nat (Rows r)) (False, []))"
    using GetRow_calls_materialized [OF r(2)] r(3) by (simp add: Rows_def)
  ultimately show ?thesis using r(1) by blast
qed

lemma two_rows_result:
  "MySQLresult (Some two_rows) (- 1) =
     Inr \<lparr>err = SQLerror SQL_NO_ERROR [], currentrow = 0, rows = 2, colnames = [''x'', ''y''],
          fieldlists = [[SQLEntry_of ''a'', SQLEntry_empty], [SQLEntry_of ''b'', SQLEntry_of ''b'']]\<rparr>"
  by (simp add: MySQLresult_def two_rows_def Let_def row_entries_def field_names_def upt_rec)

theorem MySQLresult_accessors_witness:
  "\<exists>r. MySQLresult (Some two_rows) (- 1) = Inr r \<and> Rows r = 2 \<and>
     GetValue r 1 1 = Inr (SQLEntry_of ''b'') \<and>
     GetValue r 0 1 = Inr SQLEntry_empty \<and>
     GetValue r 2 0 = Inr SQLEntry_empty \<and>
     GetValue r 0 (- 1) = Inr SQLEntry_empty \<and>
     GetRow_calls 3 r =
       Inr [(True, [SQLEntry_of ''a'', SQLEntry_empty]),
            (True, [SQLEntry_of ''b'', SQLEntry_of ''b'']), (False, [])]"
proof -
  obtain r where r: "MySQLresult (Some two_rows) (- 1) = Inr r"
    and v: "\<forall>row column. GetValue r row column =
        Inr (if 0 \<le> row \<and> row < Rows r \<and> 0 \<le> column \<and>
                column < int (length (fieldlists r ! nat row))
             then fieldlists r ! nat row ! nat column else SQLEntry_empty)"
    and g: "\<forall>k. GetRow_calls k r =
        Inr (map (Pair True) (take k (take (nat (Rows r)) (fieldlists r)))
             @ replicate (k - nat (Rows r)) (False, []))"
    using MySQLresult_accessors [of "Some two_rows" "- 1"] by blast
  have e: "r = \<lparr>err = SQLerror SQL_NO_ERROR [], currentrow = 0, rows = 2, colnames = [''x'', ''y''],
          fieldlists = [[SQLEntry_of ''a'', SQLEntry_empty], [SQLEntry_of ''b'', SQLEntry_of ''b'']]\<rparr>"
    using r two_rows_result by simp
  have "Rows r = 2" by (simp add: e Rows_def)
  moreover have "GetValue r 1 1 = Inr (SQLEntry_of ''b'')"
    by (subst v [rule_format]) (simp add: e Rows_def)
  moreover have "GetValue r 0 1 = Inr SQLEntry_empty"
    by (subst v [rule_format]) (simp add: e Rows_def)
  moreover have "GetValue r 2 0 = Inr SQLEntry_empty"
    by (subst v [rule_format]) (simp add: e Rows_def)
  moreover have "GetValue r 0 (- 1) = Inr SQLEntry_empty"
    by (subst v [rule_format]) (simp add: e Rows_def)
  moreover have "GetRow_calls 3 r =
       Inr [(True, [SQLEntry_of ''a'', SQLEntry_empty]),
            (True, [SQLEntry_of ''b'', SQLEntry_of ''b'']), (False, [])]"
    by (subst g [rule_format]) (simp add: e Rows_def)
  ultimately show ?thesis using r by blast
qed

subsection \<open>Delivery of results\<close>

lemma notify_loop_map:
  "notify_loop xs ds = ds @ map (\<lambda>i. if err_id (err (ri_r i)) = SQL_NO_ERROR
        then OnResult (ri_q i) (ri_r i) else OnError (ri_q i) (err (ri_r i))) xs"
  by (induction xs arbitrary: ds) simp_all

text \<open>
  C6. Whatever the result queue holds, \<open>OnNotify\<close> makes one callback per queued
  result, in queue order, after the callbacks made before: \<open>OnError\<close> with the result's
  error exactly when the result carries an error (\<open>err.id\<close> is not \<open>SQL_NO_ERROR\<close>),
  \<open>OnResult\<close> otherwise, each to the query the result was queued for. It leaves the
  result queue empty and the query queue as it was.
\<close>

theorem OnNotify_delivers_in_order:
  "delivered (OnNotify st) =
     delivered st @ map (\<lambda>i. if err_id (err (ri_r i)) = SQL_NO_ERROR
        then OnResult (ri_q i) (ri_r i) else OnError (ri_q i) (err (ri_r i))) (rq st) \<and>
   rq (OnNotify st) = [] \<and> qq (OnNotify st) = qq st"
  by (simp add: OnNotify_def notify_loop_map)

theorem OnNotify_delivers_in_order_witness:
  "delivered (OnNotify two_results) =
     [OnResult query_a empty_result, OnError query_b (SQLerror SQL_QREPLY_FAIL ''1064: syntax'')] \<and>
   rq (OnNotify two_results) = [] \<and> qq (OnNotify two_results) = []"
  using OnNotify_delivers_in_order [of two_results]
  by (simp add: two_results_def ModuleSQL_def empty_result_def MySQLresult_error_def SQLerror_def)

subsection \<open>Withdrawing a connection\<close>

lemma unat_max32: "unat (- 1 :: 32 word) = 4294967295"
  by (simp add: unsigned_minus_1_eq_mask mask_eq_exp_minus_1)

lemma unat_of_nat32: "k < 2 ^ 32 \<Longrightarrow> unat (word_of_nat k :: 32 word) = k"
  by (simp add: unat_of_nat take_bit_nat_eq_self unsigned_of_nat)

text \<open>
  The scan from index \<open>k\<close> down: it fails the matching queries among the first
  \<open>k + 1\<close>, last first, erases them, and then, \<open>j >= 0\<close> holding for every unsigned
  \<open>j\<close>, decrements \<open>j\<close> from 0 to 4294967295 and indexes the deque there.
\<close>

lemma remove_queries_from:
  "length q < 2 ^ 32 \<Longrightarrow> k < length q \<Longrightarrow>
   remove_queries conn (word_of_nat k) q ds =
     Some (Crashed DequeOutOfRange,
           filter (\<lambda>i. qi_c i \<noteq> conn) (take (Suc k) q) @ drop (Suc k) q,
           ds @ rev (map bad_dbid (filter (\<lambda>i. qi_c i = conn) (take (Suc k) q))))"
proof (induction k arbitrary: q ds)
  case 0
  have t: "take (Suc 0) q = [q ! 0]" using 0 by (cases q) simp_all
  show ?case
  proof (cases "qi_c (q ! 0) = conn")
    case True
    have l: "length (erase 0 q) \<le> unat (- 1 :: 32 word)"
      using 0 by (simp add: erase_def unat_max32)
    have "remove_queries conn (- 1) (erase 0 q) (ds @ [bad_dbid (q ! 0)]) =
        Some (Crashed DequeOutOfRange, erase 0 q, ds @ [bad_dbid (q ! 0)])"
      using l by (subst remove_queries.simps) simp
    then show ?thesis using 0 True
      by (subst remove_queries.simps) (simp add: t erase_def bad_dbid_def)
  next
    case False
    have l: "length q \<le> unat (- 1 :: 32 word)" using 0 by (simp add: unat_max32)
    have "remove_queries conn (- 1) q ds = Some (Crashed DequeOutOfRange, q, ds)"
      using l by (subst remove_queries.simps) simp
    moreover have "q = q ! 0 # drop (Suc 0) q" using 0 by (cases q) simp_all
    ultimately show ?thesis using 0 False
      by (subst remove_queries.simps) (simp add: t)
  qed
next
  case (Suc k)
  have u: "unat (word_of_nat (Suc k) :: 32 word) = Suc k"
    using Suc.prems by (intro unat_of_nat32) simp
  have m: "(word_of_nat (Suc k) :: 32 word) - 1 = word_of_nat k" by simp
  have t: "take (Suc (Suc k)) q = take (Suc k) q @ [q ! Suc k]"
    using Suc.prems by (simp add: take_Suc_conv_app_nth)
  show ?case
  proof (cases "qi_c (q ! Suc k) = conn")
    case True
    let ?q' = "erase (Suc k) q"
    have l: "length ?q' < 2 ^ 32" "k < length ?q'" using Suc.prems by (simp_all add: erase_def)
    have tk: "take (Suc k) ?q' = take (Suc k) q" using Suc.prems by (simp add: erase_def)
    have dr: "drop (Suc k) ?q' = drop (Suc (Suc k)) q" using Suc.prems by (simp add: erase_def)
    have "remove_queries conn (word_of_nat (Suc k)) q ds =
        remove_queries conn (word_of_nat k) ?q' (ds @ [bad_dbid (q ! Suc k)])"
      using Suc.prems True
      by (subst remove_queries.simps) (simp add: u m bad_dbid_def del: of_nat_Suc)
    also have "\<dots> = Some (Crashed DequeOutOfRange,
           filter (\<lambda>i. qi_c i \<noteq> conn) (take (Suc k) ?q') @ drop (Suc k) ?q',
           (ds @ [bad_dbid (q ! Suc k)]) @
             rev (map bad_dbid (filter (\<lambda>i. qi_c i = conn) (take (Suc k) ?q'))))"
      by (rule Suc.IH [OF l])
    finally show ?thesis using True by (simp add: tk dr t)
  next
    case False
    have "remove_queries conn (word_of_nat (Suc k)) q ds = remove_queries conn (word_of_nat k) q ds"
      using Suc.prems False by (subst remove_queries.simps) (simp add: u m del: of_nat_Suc)
    also have "\<dots> = Some (Crashed DequeOutOfRange,
           filter (\<lambda>i. qi_c i \<noteq> conn) (take (Suc k) q) @ drop (Suc k) q,
           ds @ rev (map bad_dbid (filter (\<lambda>i. qi_c i = conn) (take (Suc k) q))))"
      using Suc.prems by (intro Suc.IH) simp_all
    finally show ?thesis using False Suc.prems
      by (simp add: t Cons_nth_drop_Suc [symmetric] del: drop_Suc_Cons)
  qed
qed

lemma remove_queries_all:
  assumes "length q < 2 ^ 32"
  shows "remove_queries conn (word_of_nat (length q) - 1) q ds =
     Some (Crashed DequeOutOfRange, filter (\<lambda>i. qi_c i \<noteq> conn) q,
           ds @ rev (map bad_dbid (filter (\<lambda>i. qi_c i = conn) q)))"
proof (cases q)
  case Nil
  then show ?thesis by (subst remove_queries.simps) (simp add: unat_max32)
next
  case (Cons a p)
  have "remove_queries conn (word_of_nat (length p)) q ds =
     Some (Crashed DequeOutOfRange,
           filter (\<lambda>i. qi_c i \<noteq> conn) (take (Suc (length p)) q) @ drop (Suc (length p)) q,
           ds @ rev (map bad_dbid (filter (\<lambda>i. qi_c i = conn) (take (Suc (length p)) q))))"
    using assms Cons by (intro remove_queries_from) simp_all
  then show ?thesis using Cons by simp
qed

text \<open>
  \<open>OnRehash\<close> with at least one connection to withdraw: the first connection's scan
  ends the function.
\<close>

lemma withdraw_first_connection:
  "length (qq st) < 2 ^ 32 \<Longrightarrow>
   withdraw (conn # others) st =
     Some (Crashed DequeOutOfRange,
           st\<lparr>qq := filter (\<lambda>i. qi_c i \<noteq> conn) (qq st),
              delivered := delivered st @
                 rev (map bad_dbid (filter (\<lambda>i. qi_c i = conn) (qq st)))\<rparr>)"
  by (simp add: remove_queries_all)

text \<open>
  The failures that are delivered come in reverse queue order: the scan starts at the
  back of the queue.
\<close>

lemma remove_queries_reverse_order:
  "remove_queries 7 (word_of_nat (length two_queued) - 1) two_queued [] =
     Some (Crashed DequeOutOfRange, [],
           [OnError query_b (SQLerror SQL_BAD_DBID []), OnError query_a (SQLerror SQL_BAD_DBID [])])"
  by (simp add: two_queued_def query_a_def query_b_def remove_queries.simps erase_def
      unat_max32 SQLerror_def)

text \<open>
  C2. The claim: withdrawing a connection with \<open>N\<close> queries queued for it produces
  exactly \<open>N\<close> failures, in queue order, all before the withdrawal call returns, and
  leaves the queries of other connections untouched. The scan of \<open>OnRehash\<close> is
  \<open>for (unsigned int j = qq.size() - 1; j >= 0; j--)\<close>, whose condition holds for every
  unsigned \<open>j\<close>: with one query queued for connection 7, the scan fails it, decrements
  \<open>j\<close> from 0 to 4294967295 and indexes the deque there, so the call does not return;
  with nothing queued it indexes the empty deque at once; and with connections 7 and 8
  both withdrawn, the query queued for connection 8 is never failed.
\<close>

theorem withdraw_scan_runs_off_the_queue:
  "withdraw [7] (ModuleSQL\<lparr>qq := one_queued\<rparr>) =
     Some (Crashed DequeOutOfRange,
           ModuleSQL\<lparr>qq := [], delivered := [OnError query_a (SQLerror SQL_BAD_DBID [])]\<rparr>) \<and>
   withdraw [7] ModuleSQL = Some (Crashed DequeOutOfRange, ModuleSQL) \<and>
   withdraw [7, 8] (ModuleSQL\<lparr>qq := queued_7_and_8\<rparr>) =
     Some (Crashed DequeOutOfRange,
           ModuleSQL\<lparr>qq := [\<lparr>qi_q = query_b, qi_query = ''SELECT 2'', qi_c = 8\<rparr>],
                     delivered := [OnError query_a (SQLerror SQL_BAD_DBID [])]\<rparr>)"
  by (simp add: one_queued_def queued_7_and_8_def query_a_def query_b_def ModuleSQL_def
      remove_queries.simps erase_def unat_max32 SQLerror_def)

subsection \<open>The worker's turn\<close>

text \<open>
  Between the worker's two steps the main thread may submit queries: the front of the
  queue stays, and the report pops the query and posts exactly one result for it.
\<close>

lemma submit_keeps_front:
  "Run_front st = Some i \<Longrightarrow> Run_front (submit q qs c st) = Some i"
  by (auto simp: Run_front_def submit_def split: list.splits)

lemma Run_report_posts:
  "qq st = i # rest \<Longrightarrow>
   Run_report i res (st\<lparr>qq := qq st @ later\<rparr>) =
     Inr (st\<lparr>qq := rest @ later, rq := rq st @ [\<lparr>ri_q = qi_q i, ri_r = res\<rparr>]\<rparr>)"
  by (simp add: Run_report_def)

text \<open>A different query at the front: the result is deleted and nothing is posted.\<close>

lemma Run_report_discards:
  "qq st = f # rest \<Longrightarrow> q_addr (qi_q f) \<noteq> q_addr (qi_q i) \<Longrightarrow> Run_report i res st = Inr st"
  by (simp add: Run_report_def)

text \<open>
  C5. The claim: a processed query gets exactly one posted result, unless it was
  removed from the queue while in flight, in which case the computed result is discarded.
  Posting (\<open>Run_report_posts\<close>) and discarding while other queries are queued
  (\<open>Run_report_discards\<close>) are as claimed. With one query queued, taken by the worker,
  and its module unloaded while the query runs, \<open>OnUnloadModule\<close> fails and erases the
  query and leaves the queue empty; the worker then evaluates \<open>Parent->qq.front()\<close> on
  the empty deque instead of discarding the result.
\<close>

theorem Run_report_after_unload:
  "Run_front (submit query_a ''SELECT 1'' 7 ModuleSQL)
     = Some \<lparr>qi_q = query_a, qi_query = ''SELECT 1'', qi_c = 7\<rparr> \<and>
   OnUnloadModule 1 (submit query_a ''SELECT 1'' 7 ModuleSQL)
     = Inr (ModuleSQL\<lparr>delivered := [OnError query_a (SQLerror SQL_BAD_DBID [])]\<rparr>) \<and>
   Run_report \<lparr>qi_q = query_a, qi_query = ''SELECT 1'', qi_c = 7\<rparr> empty_result
       (ModuleSQL\<lparr>delivered := [OnError query_a (SQLerror SQL_BAD_DBID [])]\<rparr>)
     = Inl EmptyDequeFront"
  by (simp add: Run_front_def submit_def ModuleSQL_def OnUnloadModule_def OnNotify_def
      Run_report_def query_a_def erase_def)

end
